theory Spec2Isabelle
  imports Complex_Main "HOL-Library.Log_Nat"
begin

section \<open>The UserProfile component (dashboard module, lines 219--331)\<close>

text \<open>
  \<^verbatim>\<open>interface User { name: string; email: string }\<close>
\<close>

record User =
  name :: string
  email :: string

text \<open>
  What \<^verbatim>\<open>console.log\<close> receives from the component: the effect's two messages and
  the timer callback's \<^verbatim>\<open>'Random number:', random\<close>.
\<close>

datatype log_entry = LogMount | LogCleanup | LogRandom real

text \<open>
  The four \<^verbatim>\<open>useState\<close> cells of the component, together with what the component
  leaves behind in its environment: the number of \<^verbatim>\<open>setTimeout\<close> callbacks that
  are scheduled and have not fired yet, and the console output. Every callback that
  \<^verbatim>\<open>fetchUser\<close> schedules is the same closure over the same (stable) setters and has
  the same delay, so the pending callbacks are told apart by nothing but their number.

  The draw of \<^verbatim>\<open>Math.random()\<close> is a number in \<open>[0,1)\<close>, modelled as a real; the
  comparison \<^verbatim>\<open>random > 0.7\<close> is the comparison of reals (no double lies strictly
  between the double nearest to \<open>7/10\<close> and \<open>7/10\<close> itself, so the two agree on
  every double).

  The setters called inside one callback are applied together: the module imports
  \<^verbatim>\<open>use\<close>, so it runs on React 19, which batches the updates made in a timer
  callback or an event handler into one render. A callback is thus one transition of
  the state. The state cells outlive the effect's cleanup when React re-runs the effect
  on a mounted component, which is the case the runs below are about.
\<close>

record UserProfile_state =
  user :: "User option"
  loading :: bool
  error :: "string option"
  randomNumber :: "real option"
  timers :: nat
  console :: "log_entry list"

text \<open>The state of the first render: \<^verbatim>\<open>useState(null)\<close>, \<^verbatim>\<open>useState(false)\<close>, ...\<close>

definition initial :: UserProfile_state where
  "initial = \<lparr>user = None, loading = False, error = None, randomNumber = None,
              timers = 0, console = []\<rparr>"

text \<open>
  \<^verbatim>\<open>const fetchUser = () => { setLoading(true); setError(null); setUser(null);
     setRandomNumber(null); setTimeout(() => {...}, 2000) }\<close>
\<close>

definition fetchUser :: "UserProfile_state \<Rightarrow> UserProfile_state" where
  "fetchUser s =
     s\<lparr>loading := True, error := None, user := None, randomNumber := None,
       timers := Suc (timers s)\<rparr>"

text \<open>The body of the callback given to \<^verbatim>\<open>setTimeout\<close>, for the draw \<open>random\<close>.\<close>

definition onTimeout :: "real \<Rightarrow> UserProfile_state \<Rightarrow> UserProfile_state" where
  "onTimeout random s =
     (let s1 = s\<lparr>randomNumber := Some random, console := console s @ [LogRandom random]\<rparr>;
          s2 = (if random > 7 / 10
                then s1\<lparr>error := Some ''Failed to load user data'', user := None\<rparr>
                else s1\<lparr>user := Some \<lparr>name = ''Jesse Zhang'',
                                       email = ''zz597375428@gmail.com''\<rparr>,
                        error := None\<rparr>)
      in s2\<lparr>loading := False\<rparr>)"

text \<open>
  \<^verbatim>\<open>useEffect(() => { console.log('[UserProfile] effect mount'); fetchUser();
     return () => { console.log('[UserProfile] effect cleanup') } }, [])\<close>
\<close>

definition effect_mount :: "UserProfile_state \<Rightarrow> UserProfile_state" where
  "effect_mount s = fetchUser (s\<lparr>console := console s @ [LogMount]\<rparr>)"

definition effect_cleanup :: "UserProfile_state \<Rightarrow> UserProfile_state" where
  "effect_cleanup s = s\<lparr>console := console s @ [LogCleanup]\<rparr>"

text \<open>
  JavaScript truthiness of the two values the markup tests with \<^verbatim>\<open>&&\<close> and \<^verbatim>\<open>!\<close>:
  an object is truthy, \<^verbatim>\<open>null\<close> and the empty string are not.
\<close>

definition truthy_user :: "User option \<Rightarrow> bool" where
  "truthy_user u = (u \<noteq> None)"

definition truthy_error :: "string option \<Rightarrow> bool" where
  "truthy_error e = (case e of None \<Rightarrow> False | Some m \<Rightarrow> m \<noteq> [])"

text \<open>
  The four conditional blocks of the returned markup, in their order. The success and
  the failure block show \<^verbatim>\<open>randomNumber?.toFixed(3)\<close> and each holds a
  \<^verbatim>\<open>Reload User\<close> button whose \<^verbatim>\<open>onClick\<close> is \<^verbatim>\<open>fetchUser\<close>.
\<close>

datatype panel =
    PleaseLogin
  | LoadingIndicator
  | LoadSuccess User "real option"
  | LoadFailed "real option"

definition render :: "UserProfile_state \<Rightarrow> panel list" where
  "render s =
     (if \<not> loading s \<and> \<not> truthy_error (error s) \<and> \<not> truthy_user (user s)
      then [PleaseLogin] else []) @
     (if loading s then [LoadingIndicator] else []) @
     (case user s of Some u \<Rightarrow> [LoadSuccess u (randomNumber s)] | None \<Rightarrow> []) @
     (if truthy_error (error s) then [LoadFailed (randomNumber s)] else [])"

text \<open>
  What can happen to a mounted component: React runs the effect (\<open>Mount\<close>) or its
  cleanup (\<open>Cleanup\<close>), the user clicks a \<^verbatim>\<open>Reload User\<close> button (\<open>Reload\<close>,
  possible only while a panel holding the button is rendered), or the oldest pending
  timer fires and draws \<open>r\<close> (\<open>Timer r\<close>, possible only while a timer is pending and
  for a draw in \<open>[0,1)\<close>). An event that cannot happen in a state gives \<open>None\<close>.
\<close>

datatype event = Mount | Cleanup | Reload | Timer real

fun step :: "event \<Rightarrow> UserProfile_state \<Rightarrow> UserProfile_state option" where
  "step Mount s = Some (effect_mount s)"
| "step Cleanup s = Some (effect_cleanup s)"
| "step Reload s =
     (if truthy_user (user s) \<or> truthy_error (error s) then Some (fetchUser s) else None)"
| "step (Timer r) s =
     (if timers s = 0 \<or> r < 0 \<or> 1 \<le> r then None
      else Some (onTimeout r (s\<lparr>timers := timers s - 1\<rparr>)))"

fun run :: "event list \<Rightarrow> UserProfile_state \<Rightarrow> UserProfile_state option" where
  "run [] s = Some s"
| "run (e # es) s = (case step e s of None \<Rightarrow> None | Some s' \<Rightarrow> run es s')"

text \<open>The part of the state the display layer reads.\<close>

definition observable ::
  "UserProfile_state \<Rightarrow> User option \<times> bool \<times> string option \<times> real option" where
  "observable s = (user s, loading s, error s, randomNumber s)"

text \<open>The fixed payload of a successful load.\<close>

definition payload :: User where
  "payload = \<lparr>name = ''Jesse Zhang'', email = ''zz597375428@gmail.com''\<rparr>"

text \<open>
  The four shapes of the state, named as the specification names them. \<open>Idle\<close> is
  the state before any request; \<open>Loading\<close> has a request in flight; the two settled
  shapes carry the draw that decided them.
\<close>

definition Idle :: "UserProfile_state \<Rightarrow> bool" where
  "Idle s \<longleftrightarrow>
     \<not> loading s \<and> user s = None \<and> error s = None \<and> randomNumber s = None \<and> timers s = 0"

definition Loading :: "UserProfile_state \<Rightarrow> bool" where
  "Loading s \<longleftrightarrow>
     loading s \<and> user s = None \<and> error s = None \<and> randomNumber s = None \<and> 0 < timers s"

definition Succeeded :: "UserProfile_state \<Rightarrow> bool" where
  "Succeeded s \<longleftrightarrow>
     \<not> loading s \<and> user s = Some payload \<and> error s = None \<and>
     (case randomNumber s of None \<Rightarrow> False | Some r \<Rightarrow> 0 \<le> r \<and> r \<le> 7 / 10)"

definition Failed :: "UserProfile_state \<Rightarrow> bool" where
  "Failed s \<longleftrightarrow>
     \<not> loading s \<and> user s = None \<and> error s = Some ''Failed to load user data'' \<and>
     (case randomNumber s of None \<Rightarrow> False | Some r \<Rightarrow> 7 / 10 < r \<and> r < 1)"

text \<open>
  A concrete state used as a test point below: \<open>strict_final\<close> is where the
  component ends when React runs the effect twice on the first mount (effect, cleanup,
  effect, as its strict mode does in development) and the two timers then draw \<open>0.4\<close>
  and \<open>0.9\<close>.
\<close>

definition strict_final :: UserProfile_state where
  "strict_final =
     \<lparr>user = None, loading = False, error = Some ''Failed to load user data'',
      randomNumber = Some (9 / 10), timers = 0,
      console = [LogMount, LogCleanup, LogMount, LogRandom (2 / 5), LogRandom (9 / 10)]\<rparr>"

section \<open>The TodoList component (lines 333--398)\<close>

text \<open>
  An element of the \<^verbatim>\<open>todos\<close> array: \<^verbatim>\<open>{ id: number, text: string, completed: boolean }\<close>.
  The ids are whole numbers and are only compared with \<^verbatim>\<open>===\<close>.
\<close>

record todo =
  id_todo :: int
  text_todo :: string
  completed :: bool

text \<open>The initial value of the \<^verbatim>\<open>todos\<close> state.\<close>

definition initial_todos :: "todo list" where
  "initial_todos =
     [\<lparr>id_todo = 1, text_todo = ''Learn React useState'', completed = True\<rparr>,
      \<lparr>id_todo = 2, text_todo = ''Master useEffect'', completed = True\<rparr>,
      \<lparr>id_todo = 3, text_todo = ''Understand props'', completed = False\<rparr>,
      \<lparr>id_todo = 4, text_todo = ''Practice conditional rendering'', completed = False\<rparr>,
      \<lparr>id_todo = 5, text_todo = ''Build awesome apps'', completed = False\<rparr>]"

text \<open>
  \<^verbatim>\<open>const toggleTodo = (id) => { setTodos(todos.map((todo) =>
     todo.id === id ? { ...todo, completed: !todo.completed } : todo)) }\<close>
  The function below is the new value of the \<^verbatim>\<open>todos\<close> state.
\<close>

definition toggleTodo :: "int \<Rightarrow> todo list \<Rightarrow> todo list" where
  "toggleTodo i todos =
     map (\<lambda>t. if id_todo t = i then t\<lparr>completed := \<not> completed t\<rparr> else t) todos"

section \<open>The Counter component (lines 45--49)\<close>

text \<open>
  \<^verbatim>\<open>count\<close> is a JavaScript number, an IEEE 754 double. It starts at \<open>0\<close> and is
  only ever replaced by \<open>count + 1\<close>, \<open>count - 1\<close> or \<open>0\<close>, so it is always a whole
  number and is modelled as an \<open>int\<close>; the sum or difference is then rounded to the
  nearest double, which is again a whole number.

  \<open>round_double n\<close> is the double nearest to the whole number \<open>n\<close>: a double has a
  significand of 53 bits, so a number of more than 53 bits keeps its leading 53 bits,
  rounded to nearest, a tie going to the even significand. (The range of the exponent
  plays no part: adding or subtracting 1 never takes a finite double to infinity.)
\<close>

definition round_double :: "int \<Rightarrow> int" where
  "round_double n =
     (let a = \<bar>n\<bar>;
          q = 2 ^ nat (bitlen a - 53);
          d = a div q;
          r = a mod q;
          m = (if q < 2 * r \<or> (2 * r = q \<and> odd d) then d + 1 else d)
      in sgn n * (m * q))"

text \<open>
  \<^verbatim>\<open>const increment = () => setCount(count + 1)\<close>,
  \<^verbatim>\<open>const decrement = () => setCount(count - 1)\<close>,
  \<^verbatim>\<open>const reset = () => setCount(0)\<close>: each function below is the new value of
  \<^verbatim>\<open>count\<close>.
\<close>

definition increment :: "int \<Rightarrow> int" where
  "increment count = round_double (count + 1)"

definition decrement :: "int \<Rightarrow> int" where
  "decrement count = round_double (count - 1)"

definition reset :: "int \<Rightarrow> int" where
  "reset count = 0"

section \<open>Properties of UserProfile\<close>

lemmas shape_defs = Idle_def Loading_def Succeeded_def Failed_def

lemmas eval_defs = initial_def effect_mount_def effect_cleanup_def fetchUser_def onTimeout_def
  Let_def observable_def payload_def truthy_user_def truthy_error_def render_def

text \<open>
  The literal \<^verbatim>\<open>0.7\<close> is the double \<open>6305039478318694 / 2^53\<close>. The doubles of
  \<open>[1/2, 1)\<close> are the multiples of \<open>2^-53\<close>, and on them (as on the smaller doubles,
  which are below both bounds) exceeding that double and exceeding \<open>7/10\<close> are the same.
\<close>

lemma threshold_agrees:
  "(real_of_int k / 2 ^ 53 > 6305039478318694 / 2 ^ 53) \<longleftrightarrow> (real_of_int k / 2 ^ 53 > 7 / 10)"
proof -
  have "(real_of_int k / 2 ^ 53 > 7 / 10) \<longleftrightarrow> (7 * 2 ^ 53 < real_of_int (10 * k))"
    by (simp add: field_simps)
  also have "\<dots> \<longleftrightarrow> (7 * 2 ^ 53 < 10 * k)"
    by (metis of_int_less_iff of_int_mult of_int_numeral of_int_power)
  also have "\<dots> \<longleftrightarrow> 6305039478318694 < k" by simp linarith
  also have "\<dots> \<longleftrightarrow> (real_of_int k / 2 ^ 53 > 6305039478318694 / 2 ^ 53)"
    by (simp add: divide_less_cancel)
  finally show ?thesis by simp
qed

subsection \<open>The shape of the state after each operation\<close>

lemma fetchUser_Loading: "Loading (fetchUser s)"
  by (simp add: Loading_def fetchUser_def)

lemma effect_mount_Loading: "Loading (effect_mount s)"
  by (simp add: effect_mount_def fetchUser_Loading)

lemma onTimeout_Succeeded: "0 \<le> r \<Longrightarrow> r \<le> 7 / 10 \<Longrightarrow> Succeeded (onTimeout r s)"
  by (simp add: Succeeded_def onTimeout_def payload_def Let_def)

lemma onTimeout_Failed: "7 / 10 < r \<Longrightarrow> r < 1 \<Longrightarrow> Failed (onTimeout r s)"
  by (simp add: Failed_def onTimeout_def Let_def)

lemma onTimeout_timers: "timers (onTimeout r s) = timers s"
  by (simp add: onTimeout_def Let_def)

lemma effect_cleanup_shape:
  "Idle (effect_cleanup s) = Idle s" "Loading (effect_cleanup s) = Loading s"
  "Succeeded (effect_cleanup s) = Succeeded s" "Failed (effect_cleanup s) = Failed s"
  by (simp_all add: shape_defs effect_cleanup_def)

lemma not_Idle: "Loading s \<or> Succeeded s \<or> Failed s \<Longrightarrow> \<not> Idle s"
  by (auto simp: shape_defs)

text \<open>
  The cleanup keeps the shape; every other event leads to \<open>Loading\<close> or to a settled
  shape, whatever the state before.
\<close>

lemma step_shape:
  assumes "step e s = Some s'"
  shows "(e = Cleanup \<and> Idle s' = Idle s \<and> Loading s' = Loading s
            \<and> Succeeded s' = Succeeded s \<and> Failed s' = Failed s)
         \<or> (e \<noteq> Cleanup \<and> (Loading s' \<or> Succeeded s' \<or> Failed s'))"
proof (cases e)
  case Mount
  with assms show ?thesis by (auto simp: effect_mount_Loading)
next
  case Cleanup
  with assms show ?thesis by (auto simp: effect_cleanup_shape)
next
  case Reload
  with assms show ?thesis by (auto simp: fetchUser_Loading split: if_splits)
next
  case (Timer r)
  with assms have r: "0 \<le> r" "r < 1" and s': "s' = onTimeout r (s\<lparr>timers := timers s - 1\<rparr>)"
    by (auto split: if_splits)
  show ?thesis
  proof (cases "r \<le> 7 / 10")
    case True
    with r s' Timer show ?thesis by (simp add: onTimeout_Succeeded)
  next
    case False
    with r s' Timer show ?thesis by (simp add: onTimeout_Failed)
  qed
qed

lemma run_shape:
  "run es s = Some s' \<Longrightarrow> Idle s \<or> Loading s \<or> Succeeded s \<or> Failed s \<Longrightarrow>
   (Idle s' \<or> Loading s' \<or> Succeeded s' \<or> Failed s')
   \<and> (Idle s' \<longleftrightarrow> Idle s \<and> set es \<subseteq> {Cleanup})"
proof (induction es arbitrary: s)
  case Nil
  then show ?case by simp
next
  case (Cons e es)
  from Cons.prems(1) obtain s1 where e: "step e s = Some s1" and es: "run es s1 = Some s'"
    by (auto split: option.splits)
  from step_shape [OF e] Cons.prems(2)
  have sh1: "Idle s1 \<or> Loading s1 \<or> Succeeded s1 \<or> Failed s1" by blast
  note ih = Cons.IH [OF es sh1]
  from step_shape [OF e] not_Idle [of s1]
  have "Idle s1 \<longleftrightarrow> Idle s \<and> e = Cleanup" by blast
  with ih show ?case by auto
qed

lemma initial_Idle: "Idle initial"
  by (simp add: Idle_def initial_def)

lemma reachable_shape:
  assumes "run es initial = Some s"
  shows "Idle s \<or> Loading s \<or> Succeeded s \<or> Failed s"
    and "Idle s \<longleftrightarrow> set es \<subseteq> {Cleanup}"
  using run_shape [OF assms] initial_Idle by blast+

lemma strict_run:
  "run [Mount, Cleanup, Mount, Timer (2 / 5), Timer (9 / 10)] initial = Some strict_final"
  by (simp add: eval_defs strict_final_def)

subsection \<open>Outcomes\<close>

text \<open>
  C1 (mutual exclusion of outcomes): in every state the component reaches from its
  first render, by any sequence of effect runs, cleanups, reloads and timer completions,
  \<open>user\<close> and \<open>error\<close> are not both set. (\<open>Mount\<close> is possible in every state and
  calls \<^verbatim>\<open>fetchUser\<close>, so the sequences include every interleaving of calls of
  \<^verbatim>\<open>fetchUser\<close> with completions.)
\<close>

theorem user_error_exclusive:
  assumes "run es initial = Some s"
  shows "\<not> (user s \<noteq> None \<and> error s \<noteq> None)"
  using reachable_shape(1) [OF assms] by (auto simp: shape_defs)

text \<open>C1 at the run of two overlapping requests that draw \<open>0.4\<close> and \<open>0.9\<close>.\<close>

theorem user_error_exclusive_witness:
  "run [Mount, Cleanup, Mount, Timer (2 / 5), Timer (9 / 10)] initial = Some strict_final
   \<and> \<not> (user strict_final \<noteq> None \<and> error strict_final \<noteq> None)"
  using user_error_exclusive [OF strict_run] strict_run by simp

text \<open>
  C8 (the drawn number accompanies every outcome): in every reachable state in which
  \<open>user\<close> or \<open>error\<close> is set, \<open>randomNumber\<close> is set as well.
\<close>

theorem outcome_has_randomNumber:
  assumes "run es initial = Some s"
  shows "user s \<noteq> None \<or> error s \<noteq> None \<longrightarrow> randomNumber s \<noteq> None"
  using reachable_shape(1) [OF assms] by (auto simp: shape_defs split: option.splits)

text \<open>C8 at the same run, which ends with \<open>error\<close> set.\<close>

theorem outcome_has_randomNumber_witness:
  "run [Mount, Cleanup, Mount, Timer (2 / 5), Timer (9 / 10)] initial = Some strict_final
   \<and> error strict_final \<noteq> None
   \<and> randomNumber strict_final \<noteq> None"
proof -
  have e: "error strict_final \<noteq> None" by (simp add: strict_final_def)
  with outcome_has_randomNumber [OF strict_run] strict_run show ?thesis by simp
qed

text \<open>
  C3 (outcome threshold): for every draw \<open>r\<close> in \<open>[0,1)\<close>, one effect run followed by
  the completion of its timer ends settled, with \<open>r\<close> stored; it has succeeded, with
  the fixed payload and no error, exactly when \<open>r \<le> 0.7\<close>, and has failed, with the
  error message and no user, exactly when \<open>r > 0.7\<close>.
\<close>

theorem single_request_outcome:
  assumes "0 \<le> r" and "r < 1"
  shows "\<exists>s. run [Mount, Timer r] initial = Some s
           \<and> \<not> loading s \<and> randomNumber s = Some r \<and> timers s = 0
           \<and> (Succeeded s \<longleftrightarrow> r \<le> 7 / 10) \<and> (Failed s \<longleftrightarrow> r > 7 / 10)
           \<and> (user s = Some payload \<longleftrightarrow> r \<le> 7 / 10) \<and> (user s = None \<longleftrightarrow> r > 7 / 10)
           \<and> (error s = Some ''Failed to load user data'' \<longleftrightarrow> r > 7 / 10)
           \<and> (error s = None \<longleftrightarrow> r \<le> 7 / 10)"
  using assms by (auto simp: eval_defs Succeeded_def Failed_def)

text \<open>C3 at the draws \<open>0.4\<close> (succeeded, fixed payload) and \<open>0.9\<close> (failed).\<close>

theorem single_request_outcome_witness:
  "(0::real) \<le> 2 / 5 \<and> (2 / 5 :: real) < 1
   \<and> map_option observable (run [Mount, Timer (2 / 5)] initial)
       = Some (Some payload, False, None, Some (2 / 5))
   \<and> (0::real) \<le> 9 / 10 \<and> (9 / 10 :: real) < 1
   \<and> map_option observable (run [Mount, Timer (9 / 10)] initial)
       = Some (None, False, Some ''Failed to load user data'', Some (9 / 10))"
proof -
  have a: "(0::real) \<le> 2 / 5" "(2 / 5 :: real) < 1"
    and b: "(0::real) \<le> 9 / 10" "(9 / 10 :: real) < 1" by simp_all
  have "map_option observable (run [Mount, Timer (2 / 5)] initial)
       = Some (Some payload, False, None, Some (2 / 5))"
    using single_request_outcome [OF a] by (elim exE conjE) (simp add: observable_def)
  moreover have "map_option observable (run [Mount, Timer (9 / 10)] initial)
       = Some (None, False, Some ''Failed to load user data'', Some (9 / 10))"
    using single_request_outcome [OF b] by (elim exE conjE) (simp add: observable_def)
  ultimately show ?thesis by simp
qed

text \<open>
  In the state in which \<^verbatim>\<open>fetchUser\<close> returns, whatever the state it was called in,
  the component is loading, user, error and the drawn number are null, a completion is
  pending and the loading indicator alone is rendered.
\<close>

lemma fetchUser_returns_Loading:
  "loading (fetchUser s) \<and> user (fetchUser s) = None \<and> error (fetchUser s) = None
   \<and> randomNumber (fetchUser s) = None \<and> 0 < timers (fetchUser s)
   \<and> render (fetchUser s) = [LoadingIndicator]"
  by (simp add: fetchUser_def render_def truthy_user_def truthy_error_def)

subsection \<open>Rendering\<close>

lemma render_Idle: "Idle s \<Longrightarrow> render s = [PleaseLogin]"
  by (simp add: Idle_def render_def truthy_user_def truthy_error_def)

lemma render_Loading: "Loading s \<Longrightarrow> render s = [LoadingIndicator]"
  by (simp add: Loading_def render_def truthy_user_def truthy_error_def)

lemma render_Succeeded: "Succeeded s \<Longrightarrow> render s = [LoadSuccess payload (randomNumber s)]"
  by (simp add: Succeeded_def render_def truthy_user_def truthy_error_def)

lemma render_Failed: "Failed s \<Longrightarrow> render s = [LoadFailed (randomNumber s)]"
  by (simp add: Failed_def render_def truthy_user_def truthy_error_def)

lemma settled_randomNumber: "Succeeded s \<or> Failed s \<Longrightarrow> randomNumber s \<noteq> None"
  by (auto simp: Succeeded_def Failed_def split: option.splits)

text \<open>
  C6, as the markup has it: in every reachable state exactly one panel is rendered, out
  of four. Before the first call of \<^verbatim>\<open>fetchUser\<close> (no event so far but cleanups) it is
  the \<^verbatim>\<open>Please log in\<close> placeholder; from the first call on it is the loading
  indicator, or the success panel with the fixed payload and a drawn number, or the
  failure panel with a drawn number.
\<close>

theorem render_one_panel:
  assumes "run es initial = Some s"
  shows "(set es \<subseteq> {Cleanup} \<longrightarrow> render s = [PleaseLogin])
       \<and> (\<not> set es \<subseteq> {Cleanup} \<longrightarrow>
            render s = [LoadingIndicator]
            \<or> (render s = [LoadSuccess payload (randomNumber s)] \<and> randomNumber s \<noteq> None)
            \<or> (render s = [LoadFailed (randomNumber s)] \<and> randomNumber s \<noteq> None))"
proof -
  note sh = reachable_shape [OF assms]
  show ?thesis
  proof (cases "set es \<subseteq> {Cleanup}")
    case True
    with sh(2) show ?thesis by (simp add: render_Idle)
  next
    case False
    with sh have "Loading s \<or> Succeeded s \<or> Failed s" by blast
    with False show ?thesis
      using render_Loading render_Succeeded render_Failed settled_randomNumber by blast
  qed
qed

text \<open>
  C6 at a run with requests (the failure panel alone) and at a run without
  (the placeholder alone).
\<close>

theorem render_one_panel_witness:
  "run [Mount, Cleanup, Mount, Timer (2 / 5), Timer (9 / 10)] initial = Some strict_final
   \<and> \<not> set [Mount, Cleanup, Mount, Timer (2 / 5), Timer (9 / 10)] \<subseteq> {Cleanup}
   \<and> render strict_final = [LoadFailed (Some (9 / 10))]
   \<and> run [Cleanup] initial = Some (effect_cleanup initial)
   \<and> set [Cleanup] \<subseteq> {Cleanup}
   \<and> render (effect_cleanup initial) = [PleaseLogin]"
proof -
  have c: "run [Cleanup] initial = Some (effect_cleanup initial)" by simp
  have "render strict_final = [LoadFailed (Some (9 / 10))]"
    using render_one_panel [OF strict_run]
    by (simp add: strict_final_def render_def truthy_user_def truthy_error_def)
  moreover have "render (effect_cleanup initial) = [PleaseLogin]"
    using render_one_panel [OF c] by simp
  ultimately show ?thesis using strict_run c by simp
qed

text \<open>
  The first render shows none of the loading indicator, the success panel and the
  failure panel: it shows the placeholder.
\<close>

theorem render_one_panel_counterexample:
  "run [] initial = Some initial \<and> render initial = [PleaseLogin]
   \<and> LoadingIndicator \<notin> set (render initial)"
  by (simp add: eval_defs)

subsection \<open>Requests and their completions\<close>

text \<open>
  C5, evaluated on the code. In the state in which \<^verbatim>\<open>fetchUser\<close> returns, from any
  state, the component is loading and user, error and the drawn number are null. That
  state does not last until the call's own completion when an earlier request is still
  pending: on the run effect, cleanup, effect, the second call returns with the
  component loading and two timers pending; the first request's timer then fires, draws
  \<open>0.4\<close>, and the component is no longer loading and has a user and a drawn number,
  while the second call's own timer is still pending.
\<close>

theorem reset_overwritten_before_completion:
  "loading (fetchUser s) \<and> user (fetchUser s) = None \<and> error (fetchUser s) = None
   \<and> randomNumber (fetchUser s) = None
   \<and> map_option observable (run [Mount, Cleanup, Mount] initial) = Some (None, True, None, None)
   \<and> map_option timers (run [Mount, Cleanup, Mount] initial) = Some 2
   \<and> map_option loading (run [Mount, Cleanup, Mount, Timer (2 / 5)] initial) = Some False
   \<and> map_option user (run [Mount, Cleanup, Mount, Timer (2 / 5)] initial) = Some (Some payload)
   \<and> map_option randomNumber (run [Mount, Cleanup, Mount, Timer (2 / 5)] initial)
       = Some (Some (2 / 5))
   \<and> map_option render (run [Mount, Cleanup, Mount, Timer (2 / 5)] initial)
       = Some [LoadSuccess payload (Some (2 / 5))]
   \<and> map_option timers (run [Mount, Cleanup, Mount, Timer (2 / 5)] initial) = Some 1"
  by (simp add: eval_defs)

text \<open>
  C7, evaluated on the code. The callback schedules nothing: it leaves the number of
  pending timers as it is, so no request is ever started by a failure. But a failure
  does not stay until the retry action when another request is pending: on the run
  effect, cleanup, effect, the first timer draws \<open>0.9\<close> and the component has failed,
  with one timer still pending; that timer then fires, draws \<open>0.4\<close>, and the component
  has succeeded, with no call of \<^verbatim>\<open>fetchUser\<close> in between.
\<close>

theorem failed_overwritten_by_pending:
  "timers (onTimeout r s) = timers s
   \<and> map_option Failed (run [Mount, Cleanup, Mount, Timer (9 / 10)] initial) = Some True
   \<and> map_option render (run [Mount, Cleanup, Mount, Timer (9 / 10)] initial)
       = Some [LoadFailed (Some (9 / 10))]
   \<and> map_option timers (run [Mount, Cleanup, Mount, Timer (9 / 10)] initial) = Some 1
   \<and> map_option Succeeded (run [Mount, Cleanup, Mount, Timer (9 / 10), Timer (2 / 5)] initial)
       = Some True
   \<and> map_option render (run [Mount, Cleanup, Mount, Timer (9 / 10), Timer (2 / 5)] initial)
       = Some [LoadSuccess payload (Some (2 / 5))]"
  by (simp add: eval_defs Failed_def Succeeded_def)

text \<open>
  C2, evaluated on the code. A second call of \<^verbatim>\<open>fetchUser\<close> cancels nothing: two
  timers are pending after it. On the run effect, cleanup, effect, the component is
  loading with two timers pending; the first timer to fire (timers of one delay fire in
  the order they were set, so it is the first request's) draws \<open>0.4\<close> and is applied:
  the component shows the success while the second request is still pending; the second
  then draws \<open>0.9\<close> and the component shows the failure.
\<close>

theorem stale_completion_applied:
  "timers (fetchUser (fetchUser s)) = Suc (Suc (timers s))
   \<and> map_option observable (run [Mount, Cleanup, Mount] initial) = Some (None, True, None, None)
   \<and> map_option timers (run [Mount, Cleanup, Mount] initial) = Some 2
   \<and> map_option observable (run [Mount, Cleanup, Mount, Timer (2 / 5)] initial)
       = Some (Some payload, False, None, Some (2 / 5))
   \<and> map_option timers (run [Mount, Cleanup, Mount, Timer (2 / 5)] initial) = Some 1
   \<and> map_option observable (run [Mount, Cleanup, Mount, Timer (2 / 5), Timer (9 / 10)] initial)
       = Some (None, False, Some ''Failed to load user data'', Some (9 / 10))"
  by (simp add: eval_defs)

text \<open>
  C4, evaluated on the code. The cleanup of the effect writes its log line and nothing
  else: in any state, the pending timers and the displayed fields are what they were.
  On the run effect, cleanup, effect, the timer set before the cleanup is still pending
  after it; it fires after the cleanup (its draw is logged after the cleanup's line) and
  changes the state, while the request made after the cleanup is still pending.
\<close>

theorem cleanup_cancels_nothing:
  "timers (effect_cleanup s) = timers s
   \<and> observable (effect_cleanup s) = observable s
   \<and> console (effect_cleanup s) = console s @ [LogCleanup]
   \<and> map_option timers (run [Mount, Cleanup] initial) = Some 1
   \<and> map_option observable (run [Mount, Cleanup] initial) = Some (None, True, None, None)
   \<and> map_option observable (run [Mount, Cleanup, Mount, Timer (2 / 5)] initial)
       = Some (Some payload, False, None, Some (2 / 5))
   \<and> map_option console (run [Mount, Cleanup, Mount, Timer (2 / 5)] initial)
       = Some [LogMount, LogCleanup, LogMount, LogRandom (2 / 5)]
   \<and> map_option timers (run [Mount, Cleanup, Mount, Timer (2 / 5)] initial) = Some 1"
  by (simp add: eval_defs)

section \<open>Properties of TodoList\<close>

text \<open>
  C9 (frame condition of \<^verbatim>\<open>toggleTodo\<close>): the new list has the length of the old one,
  the same ids and the same texts, position by position; at every position the new todo
  is the old one with \<open>completed\<close> negated if its id is the argument, and the old one
  itself otherwise; if no todo has that id, the list is unchanged.
\<close>

theorem toggleTodo_frame:
  "length (toggleTodo i todos) = length todos
   \<and> map id_todo (toggleTodo i todos) = map id_todo todos
   \<and> map text_todo (toggleTodo i todos) = map text_todo todos
   \<and> (\<forall>k < length todos.
        toggleTodo i todos ! k =
          (if id_todo (todos ! k) = i
           then (todos ! k)\<lparr>completed := \<not> completed (todos ! k)\<rparr>
           else todos ! k))
   \<and> (i \<notin> id_todo ` set todos \<longrightarrow> toggleTodo i todos = todos)"
proof -
  have "toggleTodo i todos = todos" if "i \<notin> id_todo ` set todos"
    unfolding toggleTodo_def using that by (induction todos) auto
  then show ?thesis by (simp add: toggleTodo_def comp_def)
qed

text \<open>C9 on the initial list: toggling id 3, and toggling the absent id 9.\<close>

theorem toggleTodo_frame_witness:
  "(2::nat) < length initial_todos
   \<and> id_todo (initial_todos ! 2) = 3
   \<and> toggleTodo 3 initial_todos ! 2 = (initial_todos ! 2)\<lparr>completed := True\<rparr>
   \<and> \<not> id_todo (initial_todos ! 0) = 3
   \<and> toggleTodo 3 initial_todos ! 0 = initial_todos ! 0
   \<and> 9 \<notin> id_todo ` set initial_todos
   \<and> toggleTodo 9 initial_todos = initial_todos"
proof -
  have l: "(2::nat) < length initial_todos" "(0::nat) < length initial_todos"
    and i: "id_todo (initial_todos ! 2) = 3" "\<not> id_todo (initial_todos ! 0) = 3"
       "\<not> completed (initial_todos ! 2)"
    and n: "9 \<notin> id_todo ` set initial_todos"
    by (simp_all add: initial_todos_def)
  from toggleTodo_frame [of 3 initial_todos] l i
  have "toggleTodo 3 initial_todos ! 2 = (initial_todos ! 2)\<lparr>completed := True\<rparr>"
    and "toggleTodo 3 initial_todos ! 0 = initial_todos ! 0" by auto
  moreover from toggleTodo_frame [of 9 initial_todos] n
  have "toggleTodo 9 initial_todos = initial_todos" by blast
  ultimately show ?thesis using l i n by simp
qed

section \<open>Properties of Counter\<close>

text \<open>Whole numbers up to \<open>2^53\<close> in magnitude are doubles: rounding leaves them alone.\<close>

lemma round_double_exact:
  assumes "\<bar>n\<bar> \<le> 2 ^ 53"
  shows "round_double n = n"
proof (cases "\<bar>n\<bar> < 2 ^ 53")
  case True
  then have "bitlen \<bar>n\<bar> \<le> 53"
    using bitlen_le_iff_power [of "\<bar>n\<bar>" 53] by simp
  then have "nat (bitlen \<bar>n\<bar> - 53) = 0" by simp
  then show ?thesis
    by (simp add: round_double_def Let_def mult_sgn_abs)
next
  case False
  with assms have eq: "\<bar>n\<bar> = 2 ^ 53" by simp
  have "bitlen ((2::int) ^ 53) = 54"
    using bitlen_twopow_add_eq [of 0 53] by simp
  then have "nat (bitlen \<bar>n\<bar> - 53) = 1" using eq by simp
  moreover have "n = 2 ^ 53 \<or> n = - (2 ^ 53)" using eq by linarith
  ultimately show ?thesis
    by (auto simp add: round_double_def Let_def eq)
qed

text \<open>Clicking \<^verbatim>\<open>+\<close> \<open>n\<close> times from the initial count gives \<open>n\<close>, up to \<open>2^53\<close>.\<close>

lemma increment_funpow: "n \<le> 2 ^ 53 \<Longrightarrow> (increment ^^ n) 0 = int n"
proof (induction n)
  case 0
  then show ?case by simp
next
  case (Suc n)
  then have ih: "(increment ^^ n) 0 = int n" by simp
  have bound: "\<bar>int n + 1\<bar> \<le> 2 ^ 53" using Suc.prems
    by (metis abs_of_nat of_nat_Suc of_nat_le_iff of_nat_numeral of_nat_power add.commute)
  have "(increment ^^ Suc n) 0 = increment ((increment ^^ n) 0)" by simp
  also have "\<dots> = increment (int n)" by (simp only: ih)
  also have "\<dots> = int n + 1"
    unfolding increment_def by (rule round_double_exact [OF bound])
  finally show ?case by simp
qed

text \<open>
  C10, within the range where a double holds every whole number: \<^verbatim>\<open>reset\<close> gives 0
  from any count whatever; and for every count of magnitude below \<open>2^53\<close>,
  \<^verbatim>\<open>increment\<close> adds exactly 1, \<^verbatim>\<open>decrement\<close> subtracts exactly 1, and each undoes
  the other.
\<close>

theorem counter_inverse:
  "reset c = 0
   \<and> (\<bar>count\<bar> < 2 ^ 53 \<longrightarrow>
        increment count = count + 1 \<and> decrement count = count - 1
        \<and> decrement (increment count) = count \<and> increment (decrement count) = count)"
proof -
  have exact: "increment count = count + 1 \<and> decrement count = count - 1
        \<and> decrement (increment count) = count \<and> increment (decrement count) = count"
    if lt: "\<bar>count\<bar> < 2 ^ 53"
  proof -
    have a: "\<bar>count + 1\<bar> \<le> 2 ^ 53" and b: "\<bar>count - 1\<bar> \<le> 2 ^ 53" and c: "\<bar>count\<bar> \<le> 2 ^ 53"
      using lt by linarith+
    have i: "increment count = count + 1"
      by (simp add: increment_def round_double_exact [OF a])
    have d: "decrement count = count - 1"
      by (simp add: decrement_def round_double_exact [OF b])
    have "decrement (increment count) = count"
      by (simp add: i decrement_def round_double_exact [OF c])
    moreover have "increment (decrement count) = count"
      by (simp add: d increment_def round_double_exact [OF c])
    ultimately show ?thesis using i d by simp
  qed
  have zero: "reset c = 0" by (simp add: reset_def)
  from zero exact show ?thesis by blast
qed

text \<open>C10 at the count 41, with the reset taken at \<open>2^53\<close> and at a negative count.\<close>

theorem counter_inverse_witness:
  "reset 9007199254740992 = 0 \<and> reset (- 7) = 0
   \<and> \<bar>41 :: int\<bar> < 2 ^ 53 \<and> increment 41 = 41 + 1 \<and> decrement 41 = 41 - 1
   \<and> decrement (increment 41) = 41 \<and> increment (decrement 41) = 41"
proof -
  have h: "\<bar>41 :: int\<bar> < 2 ^ 53" by simp
  have r1: "reset 9007199254740992 = 0"
    using counter_inverse [of 9007199254740992 41] by (elim conjE)
  have r2: "reset (- 7) = 0"
    using counter_inverse [of "- 7" 41] by (elim conjE)
  have "increment 41 = 41 + 1 \<and> decrement 41 = 41 - 1
        \<and> decrement (increment 41) = 41 \<and> increment (decrement 41) = 41"
    using counter_inverse [of 0 41] h by blast
  with r1 r2 h show ?thesis by blast
qed

text \<open>
  The count \<open>2^53 = 9007199254740992\<close> is reached by that many increments; there
  \<open>count + 1\<close> rounds back to \<open>count\<close>, so an increment followed by a decrement ends
  one below.
\<close>

theorem counter_inverse_counterexample:
  "(increment ^^ (2 ^ 53)) 0 = 9007199254740992
   \<and> increment 9007199254740992 = 9007199254740992
   \<and> decrement (increment 9007199254740992) = 9007199254740991
   \<and> decrement (increment 9007199254740992) \<noteq> 9007199254740992"
proof -
  have "(increment ^^ (2 ^ 53)) 0 = int (2 ^ 53)"
    by (rule increment_funpow) simp
  moreover have "increment 9007199254740992 = 9007199254740992" by code_simp
  moreover have "decrement 9007199254740992 = 9007199254740991" by code_simp
  ultimately show ?thesis by simp
qed

end
